theory Spec2Isabelle
  imports Complex_Main "HOL-Library.Char_ord" "HOL-Library.List_Lexorder"
    "HOL-Library.Code_Target_Nat"
begin

section \<open>Data model\<close>

text \<open>
  A JavaScript number is an IEEE double: a finite value (always a rational), or one of
  the three non-finite values. Only the mathematical value of a finite number matters to
  the functions below, so a finite number is modelled by that value.
\<close>

datatype jsnumber = Finite rat | NaN | PosInfinity | NegInfinity

text \<open>
  Modelled from the spec: the type \<^verbatim>\<open>WasteReport\<close> of \<^verbatim>\<open>@/lib/types\<close>, which
  every component imports and which has the attributes \<^verbatim>\<open>id\<close>, \<^verbatim>\<open>latitude\<close>,
  \<^verbatim>\<open>longitude\<close>, \<^verbatim>\<open>photo_url\<close> and \<^verbatim>\<open>created_at\<close>. The field \<^verbatim>\<open>id\<close> is
  named \<open>report_id\<close> here, as \<open>id\<close> is the identity function of HOL.
\<close>

record waste_report =
  report_id :: string
  latitude :: jsnumber
  longitude :: jsnumber
  photo_url :: string
  created_at :: string

text \<open>
  Modelled from the spec: the type \<^verbatim>\<open>CreateWasteReport\<close> of \<^verbatim>\<open>@/lib/types\<close>, the
  request object \<^verbatim>\<open>{ latitude, longitude, photo_url }\<close>.
\<close>

record create_waste_report =
  req_latitude :: jsnumber
  req_longitude :: jsnumber
  req_photo_url :: string

section \<open>The page component \<^verbatim>\<open>Home\<close>\<close>

text \<open>The six \<^verbatim>\<open>useState\<close> cells of \<^verbatim>\<open>Home\<close>, with their initial values.\<close>

record home_state =
  reports :: "waste_report list"
  selectedReport :: "waste_report option"
  isModalOpen :: bool
  isLoading :: bool
  error :: string
  isUploadModalOpen :: bool

definition initial_home :: home_state where
  "initial_home =
     \<lparr>reports = [], selectedReport = None, isModalOpen = False, isLoading = True,
      error = [], isUploadModalOpen = False\<rparr>"

text \<open>
  The query that \<^verbatim>\<open>fetchReports\<close> sends:
  \<^verbatim>\<open>supabase.from('reports').select('*').order('created_at', { ascending: false })\<close>.
\<close>

record select_query =
  q_table :: string
  q_columns :: string
  q_order_column :: string
  q_ascending :: bool

definition fetchReports_query :: select_query where
  "fetchReports_query =
     \<lparr>q_table = ''reports'', q_columns = ''*'', q_order_column = ''created_at'',
      q_ascending = False\<rparr>"

text \<open>
  The answer \<^verbatim>\<open>{ data, error }\<close> of the backend: an error, or the data, which may be
  \<^verbatim>\<open>null\<close>.
\<close>

datatype fetch_response = FetchError string | FetchData "waste_report list option"

text \<open>
  \<^verbatim>\<open>fetchReports\<close> is asynchronous. Before the \<^verbatim>\<open>await\<close> it clears the error; when the
  answer arrives it either stores \<^verbatim>\<open>data || []\<close> (\<open>data_or_empty\<close>) or, in the \<^verbatim>\<open>catch\<close> branch, sets the
  error message; \<^verbatim>\<open>finally\<close> it clears the loading flag. Other events can be handled
  between the two halves.
\<close>

definition fetchReports_start :: "home_state \<Rightarrow> home_state" where
  "fetchReports_start s = s\<lparr>error := []\<rparr>"

definition data_or_empty :: "waste_report list option \<Rightarrow> waste_report list" where
  "data_or_empty d = (case d of None \<Rightarrow> [] | Some rs \<Rightarrow> rs)"

definition fetchReports_done :: "fetch_response \<Rightarrow> home_state \<Rightarrow> home_state" where
  "fetchReports_done resp s =
     (case resp of
        FetchError e \<Rightarrow> s\<lparr>error := ''Failed to load reports'', isLoading := False\<rparr>
      | FetchData d \<Rightarrow> s\<lparr>reports := data_or_empty d, isLoading := False\<rparr>)"

definition fetchReports :: "fetch_response \<Rightarrow> home_state \<Rightarrow> home_state" where
  "fetchReports resp s = fetchReports_done resp (fetchReports_start s)"

text \<open>
  The handler of the \<^verbatim>\<open>postgres_changes\<close> INSERT subscription:
  \<^verbatim>\<open>setReports((currentReports) => [payload.new, ...currentReports])\<close>.
\<close>

definition on_insert :: "waste_report \<Rightarrow> home_state \<Rightarrow> home_state" where
  "on_insert new s = s\<lparr>reports := new # reports s\<rparr>"

definition handleUploadSuccess_start :: "home_state \<Rightarrow> home_state" where
  "handleUploadSuccess_start s = (fetchReports_start s)\<lparr>isUploadModalOpen := False\<rparr>"

definition handleReportClick :: "waste_report \<Rightarrow> home_state \<Rightarrow> home_state" where
  "handleReportClick report s = s\<lparr>selectedReport := Some report, isModalOpen := True\<rparr>"

definition closeModal :: "home_state \<Rightarrow> home_state" where
  "closeModal s = s\<lparr>isModalOpen := False, selectedReport := None\<rparr>"

section \<open>The map overlay \<^verbatim>\<open>MapComponent\<close>\<close>

text \<open>
  The \<^verbatim>\<open>onClick\<close> of the heat-map layer. Its first argument is \<^verbatim>\<open>info.object\<close>, what
  the picking of the rendering library found under the pointer; the second says whether
  the optional property \<^verbatim>\<open>onReportClick\<close> was given. The result is the report handed
  to \<^verbatim>\<open>onReportClick\<close> (if any) and the returned flag "event handled".
\<close>

definition heatmap_onClick :: "waste_report option \<Rightarrow> bool \<Rightarrow> waste_report option \<times> bool" where
  "heatmap_onClick info_object has_onReportClick =
     (case info_object of
        Some obj \<Rightarrow> if has_onReportClick then (Some obj, True) else (None, False)
      | None \<Rightarrow> (None, False))"

text \<open>\<^verbatim>\<open>Home\<close> passes \<^verbatim>\<open>handleReportClick\<close> as \<^verbatim>\<open>onReportClick\<close>.\<close>

definition map_click :: "waste_report option \<Rightarrow> home_state \<Rightarrow> home_state" where
  "map_click info_object s =
     (case fst (heatmap_onClick info_object True) of
        Some report \<Rightarrow> handleReportClick report s
      | None \<Rightarrow> s)"

text \<open>The events that \<^verbatim>\<open>Home\<close> handles, one at a time, on the single event thread.\<close>

datatype home_event =
    FetchStart
  | FetchDone fetch_response
  | InsertEvent waste_report
  | UploadSuccess
  | MapClick "waste_report option"
  | CloseModal
  | SetUploadModal bool

fun home_step :: "home_state \<Rightarrow> home_event \<Rightarrow> home_state" where
  "home_step s FetchStart = fetchReports_start s"
| "home_step s (FetchDone resp) = fetchReports_done resp s"
| "home_step s (InsertEvent new) = on_insert new s"
| "home_step s UploadSuccess = handleUploadSuccess_start s"
| "home_step s (MapClick info_object) = map_click info_object s"
| "home_step s CloseModal = closeModal s"
| "home_step s (SetUploadModal b) = s\<lparr>isUploadModalOpen := b\<rparr>"

definition home_run :: "home_state \<Rightarrow> home_event list \<Rightarrow> home_state" where
  "home_run s evs = foldl home_step s evs"

section \<open>Number formatting of the platform\<close>

text \<open>
  What the code takes from the JavaScript platform and does not compute itself: the
  conversion of a number to a string by a template literal (\<^verbatim>\<open>Number::toString\<close>, the
  shortest digits that read back as the same double), and \<^verbatim>\<open>Date.toLocaleString\<close> with
  the options of \<^verbatim>\<open>formatTimestamp\<close>. Both are parameters of the model.
\<close>

record platform =
  numberToString :: "jsnumber \<Rightarrow> string"
  toLocaleString :: "string \<Rightarrow> string"

definition digit_char :: "nat \<Rightarrow> char" where
  "digit_char d = ''0123456789'' ! d"

fun decimal :: "nat \<Rightarrow> string" where
  "decimal n = (if n < 10 then [digit_char n] else decimal (n div 10) @ [digit_char (n mod 10)])"

text \<open>
  \<^verbatim>\<open>Number.prototype.toFixed(f)\<close> as ECMAScript defines it on the mathematical value
  of the number, for \<open>f \<le> 100\<close> (the code calls it with 6 only): a non-finite number is
  converted by \<^verbatim>\<open>Number::toString\<close>, so is a magnitude of \<open>10\<^sup>2\<^sup>1\<close> or more; otherwise
  \<open>n\<close> is the integer nearest to \<open>x \<times> 10\<^sup>f\<close> (the larger one of two), its digits are
  padded with zeros to \<open>f + 1\<close> characters, and the point goes before the last \<open>f\<close>.
\<close>

definition toFixed :: "platform \<Rightarrow> jsnumber \<Rightarrow> nat \<Rightarrow> string" where
  "toFixed pf x f =
     (case x of
        Finite q \<Rightarrow>
          (let s = (if q < 0 then ''-'' else []);
               a = \<bar>q\<bar>
           in if 10 ^ 21 \<le> a then s @ numberToString pf (Finite a)
              else
                (let n = nat \<lfloor>a * 10 ^ f + 1 / 2\<rfloor>;
                     m = decimal n;
                     k = length m
                 in if f \<noteq> 0
                    then
                      (let m2 = (if k \<le> f then replicate (f + 1 - k) CHR ''0'' @ m else m);
                           k2 = length m2
                       in s @ take (k2 - f) m2 @ ''.'' @ drop (k2 - f) m2)
                    else s @ m))
      | _ \<Rightarrow> numberToString pf x)"

section \<open>The detail modal \<^verbatim>\<open>ReportModal\<close>\<close>

definition formatTimestamp :: "platform \<Rightarrow> string \<Rightarrow> string" where
  "formatTimestamp pf timestamp = toLocaleString pf timestamp"

definition formatCoordinates :: "platform \<Rightarrow> jsnumber \<Rightarrow> jsnumber \<Rightarrow> string" where
  "formatCoordinates pf lat lng = toFixed pf lat 6 @ '', '' @ toFixed pf lng 6"

text \<open>A call \<^verbatim>\<open>window.open(url, target)\<close>.\<close>

datatype browser_call = WindowOpen string string

definition openInMaps :: "platform \<Rightarrow> waste_report \<Rightarrow> browser_call" where
  "openInMaps pf report =
     WindowOpen
       (''https://www.google.com/maps?q='' @ numberToString pf (latitude report) @ '','' @
        numberToString pf (longitude report))
       ''_blank''"

text \<open>
  What the modal shows of a report: the photo, the three text fields, and what its
  "Open in Maps" button does when pressed.
\<close>

record modal_view =
  shown_photo :: string
  shown_timestamp :: string
  shown_location :: string
  shown_id :: string
  open_in_maps :: browser_call

text \<open>
  The component returns \<^verbatim>\<open>null\<close> (here \<open>None\<close>) on \<^verbatim>\<open>!isOpen || !report\<close>.
\<close>

definition ReportModal :: "platform \<Rightarrow> waste_report option \<Rightarrow> bool \<Rightarrow> modal_view option" where
  "ReportModal pf report isOpen =
     (if \<not> isOpen then None
      else
        (case report of
           None \<Rightarrow> None
         | Some r \<Rightarrow>
             Some \<lparr>shown_photo = photo_url r,
                   shown_timestamp = formatTimestamp pf (created_at r),
                   shown_location = formatCoordinates pf (latitude r) (longitude r),
                   shown_id = report_id r,
                   open_in_maps = openInMaps pf r\<rparr>))"

section \<open>What \<^verbatim>\<open>Home\<close> renders\<close>

text \<open>
  The main view: the reports given to the map, the detail modal, the counter of the
  footer, and whether the welcome overlay (\<^verbatim>\<open>reports.length === 0\<close>) and the mobile
  upload modal are shown.
\<close>

record main_view =
  map_reports :: "waste_report list"
  detail_modal :: "modal_view option"
  report_count :: nat
  welcome_overlay :: bool
  upload_modal :: bool

text \<open>
  The error view shows the message and a "Try Again" button whose \<^verbatim>\<open>onClick\<close> is
  \<^verbatim>\<open>fetchReports\<close>.
\<close>

datatype home_view = LoadingView | ErrorView string | MainView main_view

definition Home_render :: "platform \<Rightarrow> home_state \<Rightarrow> home_view" where
  "Home_render pf s =
     (if isLoading s then LoadingView
      else if error s \<noteq> [] then ErrorView (error s)
      else
        MainView
          \<lparr>map_reports = reports s,
           detail_modal = ReportModal pf (selectedReport s) (isModalOpen s),
           report_count = length (reports s),
           welcome_overlay = (length (reports s) = 0),
           upload_modal = isUploadModalOpen s\<rparr>)"

section \<open>The upload component \<^verbatim>\<open>UploadComponent\<close>\<close>

text \<open>A \<^verbatim>\<open>File\<close> of the browser: its name, its MIME type and its size in bytes.\<close>

record file_ref =
  file_name :: string
  file_type :: string
  file_size :: nat

text \<open>The four \<^verbatim>\<open>useState\<close> cells of the component.\<close>

record upload_state =
  isUploading :: bool
  uploadStatus :: string
  selectedFile :: "file_ref option"
  previewUrl :: string

definition initial_upload :: upload_state where
  "initial_upload =
     \<lparr>isUploading = False, uploadStatus = [], selectedFile = None, previewUrl = []\<rparr>"

text \<open>
  The handlers are modelled by the trace of what they do, in program order: the state
  setters they call and the calls that leave the component (location, storage,
  database, browser). \<open>SetTimeout cb ms\<close> is \<^verbatim>\<open>setTimeout(() => cb, ms)\<close>.
\<close>

datatype action =
    SetIsUploading bool
  | SetUploadStatus string
  | SetSelectedFile "file_ref option"
  | SetPreviewUrl string
  | CreateObjectURL file_ref
  | GetCurrentLocation
  | StorageUpload string string file_ref
  | GetPublicUrl string string
  | DbInsert string "create_waste_report list"
  | ClearFileInput
  | OnUploadSuccess
  | SetTimeout action nat
  | ConsoleError

fun apply_action :: "upload_state \<Rightarrow> action \<Rightarrow> upload_state" where
  "apply_action s (SetIsUploading b) = s\<lparr>isUploading := b\<rparr>"
| "apply_action s (SetUploadStatus m) = s\<lparr>uploadStatus := m\<rparr>"
| "apply_action s (SetSelectedFile f) = s\<lparr>selectedFile := f\<rparr>"
| "apply_action s (SetPreviewUrl u) = s\<lparr>previewUrl := u\<rparr>"
| "apply_action s _ = s"

definition upload_run :: "upload_state \<Rightarrow> action list \<Rightarrow> upload_state" where
  "upload_run s tr = foldl apply_action s tr"

text \<open>The successive values that a trace gives the status.\<close>

fun status_of :: "action \<Rightarrow> string list" where
  "status_of (SetUploadStatus m) = [m]"
| "status_of _ = []"

definition statuses :: "action list \<Rightarrow> string list" where
  "statuses tr = concat (map status_of tr)"

text \<open>The calls that acquire the location or go to the network (storage, database).\<close>

fun location_or_network :: "action \<Rightarrow> bool" where
  "location_or_network GetCurrentLocation = True"
| "location_or_network (StorageUpload bucket path f) = True"
| "location_or_network (GetPublicUrl bucket path) = True"
| "location_or_network (DbInsert table rows) = True"
| "location_or_network _ = False"

fun is_insert :: "action \<Rightarrow> bool" where
  "is_insert (DbInsert table rows) = True"
| "is_insert _ = False"

text \<open>
  The timers a trace has started, and the state once the trace is done and \<open>ms\<close>
  milliseconds have passed with no other event: the callbacks whose delay has elapsed
  have run.
\<close>

fun timer_of :: "action \<Rightarrow> (action \<times> nat) list" where
  "timer_of (SetTimeout cb ms) = [(cb, ms)]"
| "timer_of _ = []"

definition timers :: "action list \<Rightarrow> (action \<times> nat) list" where
  "timers tr = concat (map timer_of tr)"

definition after_delay :: "nat \<Rightarrow> upload_state \<Rightarrow> action list \<Rightarrow> upload_state" where
  "after_delay ms s tr =
     upload_run (upload_run s tr) (map fst (filter (\<lambda>(cb, d). d \<le> ms) (timers tr)))"

subsection \<open>\<^verbatim>\<open>handleFileSelect\<close>\<close>

definition startsWith :: "string \<Rightarrow> string \<Rightarrow> bool" where
  "startsWith str search = (take (length search) str = search)"

text \<open>
  The first argument is the URL that \<^verbatim>\<open>URL.createObjectURL\<close> returns, the second is
  \<^verbatim>\<open>event.target.files?.[0]\<close>.
\<close>

definition handleFileSelect :: "string \<Rightarrow> file_ref option \<Rightarrow> action list" where
  "handleFileSelect url files0 =
     (case files0 of
        None \<Rightarrow> []
      | Some f \<Rightarrow>
          if \<not> startsWith (file_type f) ''image/'' then
            [SetUploadStatus ''Please select an image file'']
          else if file_size f > 5 * 1024 * 1024 then
            [SetUploadStatus ''File size must be less than 5MB'']
          else
            [SetSelectedFile (Some f), CreateObjectURL f, SetPreviewUrl url,
             SetUploadStatus []])"

subsection \<open>\<^verbatim>\<open>handleUpload\<close>\<close>

text \<open>
  \<^verbatim>\<open>getCurrentLocation\<close> of \<^verbatim>\<open>@/utils/geolocation\<close> and the backend client answer
  from outside; their answers are the environment of one upload attempt. A rejected
  promise throws a value, which the \<^verbatim>\<open>catch\<close> block tests with
  \<^verbatim>\<open>instanceof Error\<close>.
\<close>

record location =
  loc_latitude :: jsnumber
  loc_longitude :: jsnumber

datatype thrown = ErrorObject string | OtherValue

record upload_env =
  env_location :: "thrown + location"
  env_now :: nat
  env_random :: string
  env_upload_error :: "string option"
  env_public_url :: string
  env_db_error :: "string option"
  env_has_file_input :: bool

text \<open>\<^verbatim>\<open>name.split('.').pop()\<close>: the part of the name after its last dot.\<close>

fun split :: "char \<Rightarrow> string \<Rightarrow> string list" where
  "split sep [] = [[]]"
| "split sep (c # cs) =
     (if c = sep then [] # split sep cs
      else (case split sep cs of w # ws \<Rightarrow> (c # w) # ws | [] \<Rightarrow> [[c]]))"

definition pop :: "string list \<Rightarrow> string" where
  "pop xs = (case rev xs of x # _ \<Rightarrow> x | [] \<Rightarrow> ''undefined'')"

definition upload_path :: "upload_env \<Rightarrow> file_ref \<Rightarrow> string" where
  "upload_path env f =
     (let fileExt = pop (split CHR ''.'' (file_name f));
          fileName = decimal (env_now env) @ ''-'' @ env_random env @ ''.'' @ fileExt
      in ''photos/'' @ fileName)"

definition catch_block :: "thrown \<Rightarrow> action list" where
  "catch_block e =
     [ConsoleError,
      SetUploadStatus (case e of ErrorObject m \<Rightarrow> m | OtherValue \<Rightarrow> ''Upload failed'')]"

definition try_block :: "upload_env \<Rightarrow> file_ref \<Rightarrow> action list" where
  "try_block env f =
     GetCurrentLocation #
     (case env_location env of
        Inl e \<Rightarrow> catch_block e
      | Inr loc \<Rightarrow>
          [SetUploadStatus ''Uploading photo...'',
           StorageUpload ''waste-photos'' (upload_path env f) f] @
          (case env_upload_error env of
             Some m \<Rightarrow> catch_block (ErrorObject (''Upload failed: '' @ m))
           | None \<Rightarrow>
               [GetPublicUrl ''waste-photos'' (upload_path env f),
                SetUploadStatus ''Saving report...'',
                DbInsert ''reports''
                  [\<lparr>req_latitude = loc_latitude loc, req_longitude = loc_longitude loc,
                    req_photo_url = env_public_url env\<rparr>]] @
               (case env_db_error env of
                  Some m \<Rightarrow> catch_block (ErrorObject (''Database error: '' @ m))
                | None \<Rightarrow>
                    [SetUploadStatus ''Report submitted successfully!'',
                     SetSelectedFile None, SetPreviewUrl []] @
                    (if env_has_file_input env then [ClearFileInput] else []) @
                    [OnUploadSuccess, SetTimeout (SetUploadStatus []) 3000])))"

definition handleUpload :: "upload_env \<Rightarrow> upload_state \<Rightarrow> action list" where
  "handleUpload env s =
     (case selectedFile s of
        None \<Rightarrow> [SetUploadStatus ''Please select a photo first'']
      | Some f \<Rightarrow>
          [SetIsUploading True, SetUploadStatus ''Getting your location...''] @
          try_block env f @ [SetIsUploading False])"

definition clearSelection :: "upload_env \<Rightarrow> action list" where
  "clearSelection env =
     [SetSelectedFile None, SetPreviewUrl [], SetUploadStatus []] @
     (if env_has_file_input env then [ClearFileInput] else [])"

section \<open>Auxiliary notions for the properties\<close>

text \<open>The report that an event streams in, if it is an insert event.\<close>

fun insert_of :: "home_event \<Rightarrow> waste_report list" where
  "insert_of (InsertEvent new) = [new]"
| "insert_of _ = []"

definition inserts :: "home_event list \<Rightarrow> waste_report list" where
  "inserts evs = concat (map insert_of evs)"

text \<open>The only event that replaces the collection: a bulk fetch that completes with data.\<close>

fun replaces_collection :: "home_event \<Rightarrow> bool" where
  "replaces_collection (FetchDone (FetchData d)) = True"
| "replaces_collection _ = False"

text \<open>
  A string in fixed-point notation with \<open>f\<close> decimal places: an optional minus sign,
  one digit or more, a point, and exactly \<open>f\<close> digits.
\<close>

definition is_digit :: "char \<Rightarrow> bool" where
  "is_digit c = (c \<in> set ''0123456789'')"

definition fixed_point :: "nat \<Rightarrow> string \<Rightarrow> bool" where
  "fixed_point f str =
     (let body = (case str of c # cs \<Rightarrow> if c = CHR ''-'' then cs else str | [] \<Rightarrow> []);
          whole = take (length body - (f + 1)) body;
          rest = drop (length body - (f + 1)) body
      in whole \<noteq> [] \<and> list_all is_digit whole \<and>
         (case rest of
            p # fr \<Rightarrow> p = CHR ''.'' \<and> length fr = f \<and> list_all is_digit fr
          | [] \<Rightarrow> False))"

text \<open>Concrete reports, files and environments, for the instances below.\<close>

definition report_a :: waste_report where
  "report_a =
     \<lparr>report_id = ''a'', latitude = Finite (1629044 / 100000),
      longitude = Finite (8045559 / 100000),
      photo_url = ''https://example.org/photos/a.jpg'',
      created_at = ''2024-05-02T10:00:00+00:00''\<rparr>"

definition report_b :: waste_report where
  "report_b =
     \<lparr>report_id = ''b'', latitude = Finite (- (35 / 2)), longitude = Finite (- 149),
      photo_url = ''https://example.org/photos/b.jpg'',
      created_at = ''2024-05-01T08:30:00+00:00''\<rparr>"

definition text_file :: file_ref where
  "text_file = \<lparr>file_name = ''notes.txt'', file_type = ''text/plain'', file_size = 120\<rparr>"

definition big_image :: file_ref where
  "big_image =
     \<lparr>file_name = ''dump.jpg'', file_type = ''image/jpeg'', file_size = 6 * 1024 * 1024\<rparr>"

definition small_image :: file_ref where
  "small_image =
     \<lparr>file_name = ''site.v2.jpg'', file_type = ''image/jpeg'', file_size = 204800\<rparr>"

definition here :: location where
  "here =
     \<lparr>loc_latitude = Finite (1629044 / 100000), loc_longitude = Finite (8045559 / 100000)\<rparr>"

definition env_ok :: upload_env where
  "env_ok =
     \<lparr>env_location = Inr here, env_now = 1714644000000, env_random = ''k3x9q'',
      env_upload_error = None, env_public_url = ''https://example.org/photos/a.jpg'',
      env_db_error = None, env_has_file_input = True\<rparr>"

definition env_upload_fails :: upload_env where
  "env_upload_fails = env_ok\<lparr>env_upload_error := Some ''Bucket not found''\<rparr>"

text \<open>The state of the upload component once \<open>small_image\<close> has been selected.\<close>

definition image_selected :: upload_state where
  "image_selected = upload_run initial_upload (handleFileSelect ''blob:1'' (Some small_image))"

section \<open>The reports collection\<close>

lemma rev_insert_of: "rev (insert_of e) = insert_of e"
  by (cases e) simp_all

lemma reports_step:
  "\<not> replaces_collection e \<Longrightarrow> reports (home_step s e) = insert_of e @ reports s"
proof (cases e)
  case (FetchDone resp)
  assume "\<not> replaces_collection e"
  with FetchDone show ?thesis by (cases resp) (simp_all add: fetchReports_done_def)
next
  case (MapClick obj)
  then show ?thesis
    by (cases obj) (simp_all add: map_click_def heatmap_onClick_def handleReportClick_def)
qed (simp_all add: fetchReports_start_def on_insert_def handleUploadSuccess_start_def
      closeModal_def)

lemma reports_run:
  "\<not> list_ex replaces_collection evs \<Longrightarrow>
     reports (home_run s evs) = rev (inserts evs) @ reports s"
proof (induction evs arbitrary: s)
  case Nil
  show ?case by (simp add: home_run_def inserts_def)
next
  case (Cons e evs)
  then have e: "\<not> replaces_collection e" and evs: "\<not> list_ex replaces_collection evs"
    by simp_all
  have "reports (home_run s (e # evs)) = reports (home_run (home_step s e) evs)"
    by (simp add: home_run_def)
  also have "\<dots> = rev (inserts evs) @ reports (home_step s e)"
    by (rule Cons.IH [OF evs])
  also have "\<dots> = rev (inserts evs) @ insert_of e @ reports s"
    by (simp add: reports_step [OF e])
  also have "\<dots> = rev (inserts (e # evs)) @ reports s"
    by (simp add: inserts_def rev_insert_of)
  finally show ?case .
qed

lemma reports_after_fetch:
  assumes "\<not> list_ex replaces_collection evs"
  shows "reports (home_run s (pre @ FetchDone (FetchData d) # evs)) =
           rev (inserts evs) @ data_or_empty d"
proof -
  have "home_run s (pre @ FetchDone (FetchData d) # evs) =
          home_run (fetchReports_done (FetchData d) (home_run s pre)) evs"
    by (simp add: home_run_def)
  then show ?thesis
    by (simp add: reports_run [OF assms] fetchReports_done_def)
qed

text \<open>
  Claim C1, as the code has it. The insert handler prepends every streamed report and
  never looks at its id. Let \<open>evs\<close> be any events with no completed fetch among them.
  When \<open>evs\<close> follow a bulk fetch that completed with the result \<open>F\<close> (the data \<open>d\<close>, or
  the empty list for null data), whatever happened before it, the collection is the
  streamed inserts of \<open>evs\<close> in reverse order of delivery, followed by \<open>F\<close>; an id occurs
  in it as often as in \<open>F\<close> and in the streamed inserts together; and it holds every id
  exactly once if and only if no id is repeated among \<open>F\<close> and the streamed inserts.
  When \<open>evs\<close> are all that has happened since the page was mounted, the collection is
  the streamed inserts alone.
\<close>

theorem collection_after_fetch_and_inserts:
  assumes "\<not> list_ex replaces_collection evs"
  shows
    "reports (home_run s (pre @ FetchDone (FetchData d) # evs)) =
       rev (inserts evs) @ data_or_empty d \<and>
     count_list
       (map report_id (reports (home_run s (pre @ FetchDone (FetchData d) # evs)))) i =
       count_list (map report_id (inserts evs)) i +
       count_list (map report_id (data_or_empty d)) i \<and>
     (distinct
        (map report_id (reports (home_run s (pre @ FetchDone (FetchData d) # evs)))) \<longleftrightarrow>
      distinct (map report_id (inserts evs @ data_or_empty d))) \<and>
     reports (home_run initial_home evs) = rev (inserts evs)"
  unfolding reports_after_fetch [OF assms] reports_run [OF assms]
  by (auto simp: rev_map [symmetric] initial_home_def)

text \<open>
  An instance: one insert streamed before the fetch answers with \<open>report_a\<close>, then the
  same report \<open>report_b\<close> streamed twice, a click on the empty map in between.
\<close>

theorem collection_after_fetch_and_inserts_witness:
  "\<not> list_ex replaces_collection [InsertEvent report_b, MapClick None, InsertEvent report_b] \<and>
   reports (home_run initial_home
     ([FetchStart, InsertEvent report_b] @ FetchDone (FetchData (Some [report_a])) #
      [InsertEvent report_b, MapClick None, InsertEvent report_b])) =
     [report_b, report_b, report_a] \<and>
   count_list (map report_id (reports (home_run initial_home
     ([FetchStart, InsertEvent report_b] @ FetchDone (FetchData (Some [report_a])) #
      [InsertEvent report_b, MapClick None, InsertEvent report_b])))) ''b'' = 2 \<and>
   reports (home_run initial_home
     [InsertEvent report_b, MapClick None, InsertEvent report_b]) = [report_b, report_b]"
  using collection_after_fetch_and_inserts
    [of "[InsertEvent report_b, MapClick None, InsertEvent report_b]" initial_home
      "[FetchStart, InsertEvent report_b]" "Some [report_a]" "''b''"]
  by (simp add: inserts_def data_or_empty_def report_b_def report_a_def)

text \<open>
  Claim C1 as stated fails: a streamed insert of a report that the bulk fetch has
  already delivered is prepended again, and so is a second streamed insert with the
  same id.
\<close>

theorem duplicate_insert_counterexample:
  "reports (home_run initial_home
      [FetchStart, FetchDone (FetchData (Some [report_a])), InsertEvent report_a]) =
     [report_a, report_a] \<and>
   \<not> distinct (map report_id (reports (home_run initial_home
      [FetchStart, FetchDone (FetchData (Some [report_a])), InsertEvent report_a]))) \<and>
   count_list (map report_id (reports (home_run initial_home
      [FetchStart, FetchDone (FetchData (Some [])), InsertEvent report_b,
       InsertEvent report_b]))) ''b'' = 2"
  by (simp add: home_run_def initial_home_def fetchReports_start_def fetchReports_done_def
      data_or_empty_def on_insert_def report_b_def)

lemma inserts_map_InsertEvent: "inserts (map InsertEvent E) = E"
  by (induction E) (simp_all add: inserts_def)

lemma no_replace_map_InsertEvent: "\<not> list_ex replaces_collection (map InsertEvent E)"
  by (induction E) simp_all

text \<open>
  Claim C6. The bulk load asks the table \<^verbatim>\<open>reports\<close> for its rows ordered by
  \<^verbatim>\<open>created_at\<close>, not ascending, and stores the answer \<open>F\<close> as it arrives, so the
  stored collection is ordered as the answer is (for any order \<open>R\<close> on timestamps, in
  particular newest first). Every streamed insert is put in front of the collection:
  after the inserts \<open>E\<close> the collection is \<open>E\<close> in reverse order of delivery, followed
  by \<open>F\<close>.
\<close>

theorem bulk_order_and_prepend:
  "q_table fetchReports_query = ''reports'' \<and>
   q_order_column fetchReports_query = ''created_at'' \<and>
   \<not> q_ascending fetchReports_query \<and>
   reports (fetchReports (FetchData (Some F)) s) = F \<and>
   (sorted_wrt (\<lambda>a b. R (created_at a) (created_at b)) F \<longrightarrow>
      sorted_wrt (\<lambda>a b. R (created_at a) (created_at b))
        (reports (fetchReports (FetchData (Some F)) s))) \<and>
   reports (on_insert new s) = new # reports s \<and>
   reports (home_run (fetchReports (FetchData (Some F)) s) (map InsertEvent E)) = rev E @ F"
  using reports_run [OF no_replace_map_InsertEvent, of "fetchReports (FetchData (Some F)) s" E]
  by (simp add: inserts_map_InsertEvent fetchReports_query_def fetchReports_def
      fetchReports_start_def fetchReports_done_def data_or_empty_def on_insert_def)

text \<open>
  An instance: the answer \<open>[report_a, report_b]\<close> is newest first (the timestamps
  compared as strings), and \<open>report_b\<close>, then \<open>report_a\<close> are streamed after it.
\<close>

theorem bulk_order_and_prepend_witness:
  "sorted_wrt (\<lambda>a b. created_at a \<ge> created_at b) [report_a, report_b] \<and>
   sorted_wrt (\<lambda>a b. created_at a \<ge> created_at b)
     (reports (fetchReports (FetchData (Some [report_a, report_b])) initial_home)) \<and>
   reports (home_run (fetchReports (FetchData (Some [report_a, report_b])) initial_home)
     (map InsertEvent [report_b, report_a])) = [report_a, report_b, report_a, report_b]"
proof -
  have ord: "created_at report_a \<ge> created_at report_b"
    by (simp add: report_a_def report_b_def)
  have srt: "sorted_wrt (\<lambda>a b. created_at a \<ge> created_at b) [report_a, report_b]"
    using ord by simp
  show ?thesis
    using srt
      bulk_order_and_prepend [where F = "[report_a, report_b]" and R = "(\<ge>)"
        and s = initial_home and E = "[report_b, report_a]" and new = report_a]
    by simp
qed

section \<open>The bulk fetch\<close>

text \<open>
  Claim C5, as the code has it. A failed fetch sets the error message and clears the
  loading flag, and leaves the collection as it was (the \<^verbatim>\<open>catch\<close> branch never calls
  \<^verbatim>\<open>setReports\<close>). The page then shows the error view with its "Try Again" button,
  which is not what it shows for an empty collection (the main view with the welcome
  overlay). Invoking the fetch again clears the error and, when it succeeds, replaces
  the collection by the fetched result (by the empty list when the data is null), as
  every successful fetch does.
\<close>

theorem fetch_failure_keeps_collection:
  "fetchReports (FetchError e) s =
     s\<lparr>error := ''Failed to load reports'', isLoading := False\<rparr> \<and>
   reports (fetchReports (FetchError e) s) = reports s \<and>
   Home_render pf (fetchReports (FetchError e) s) = ErrorView ''Failed to load reports'' \<and>
   Home_render pf (fetchReports (FetchData (Some [])) s) =
     MainView
       \<lparr>map_reports = [], detail_modal = ReportModal pf (selectedReport s) (isModalOpen s),
        report_count = 0, welcome_overlay = True, upload_modal = isUploadModalOpen s\<rparr> \<and>
   error (fetchReports (FetchData d) (fetchReports (FetchError e) s)) = [] \<and>
   reports (fetchReports (FetchData d) (fetchReports (FetchError e) s)) = data_or_empty d \<and>
   reports (fetchReports (FetchData d) s) = data_or_empty d \<and>
   data_or_empty (Some F) = F \<and> data_or_empty None = []"
  by (simp add: fetchReports_def fetchReports_start_def fetchReports_done_def Home_render_def
      data_or_empty_def)

text \<open>
  Claim C5 as stated fails where it says that a failed fetch leaves the collection
  empty: when the fetch started by a successful upload fails, the reports loaded before
  stay; and when the first fetch fails after an insert was streamed, that insert stays.
\<close>

theorem fetch_failure_counterexample:
  "reports (home_run initial_home
      [FetchStart, FetchDone (FetchData (Some [report_a])), UploadSuccess,
       FetchDone (FetchError ''network'')]) = [report_a] \<and>
   reports (home_run initial_home
      [FetchStart, FetchDone (FetchData (Some [report_a])), UploadSuccess,
       FetchDone (FetchError ''network'')]) \<noteq> [] \<and>
   reports (home_run initial_home
      [FetchStart, InsertEvent report_b, FetchDone (FetchError ''network'')]) \<noteq> []"
  by (simp add: home_run_def initial_home_def fetchReports_start_def fetchReports_done_def
      data_or_empty_def handleUploadSuccess_start_def on_insert_def)

section \<open>Selecting a report on the map\<close>

text \<open>
  Claim C7. A click that picks no object hands no report to \<^verbatim>\<open>onReportClick\<close>, is
  reported as not handled and leaves the state of the page as it is, so a closed modal
  stays closed. A click that picks the report \<open>r\<close> hands \<open>r\<close> to the handler, which
  selects \<open>r\<close> and opens the modal: the modal then shows the fields of \<open>r\<close>, and so
  does the page whenever it shows the map (not loading, no error).
\<close>

theorem map_click_selection:
  "heatmap_onClick None has_onReportClick = (None, False) \<and>
   map_click None s = s \<and>
   (\<not> isModalOpen s \<longrightarrow>
      ReportModal pf (selectedReport (map_click None s)) (isModalOpen (map_click None s)) =
        None) \<and>
   heatmap_onClick (Some r) True = (Some r, True) \<and>
   map_click (Some r) s = handleReportClick r s \<and>
   ReportModal pf (selectedReport (map_click (Some r) s)) (isModalOpen (map_click (Some r) s)) =
     Some \<lparr>shown_photo = photo_url r,
           shown_timestamp = formatTimestamp pf (created_at r),
           shown_location = formatCoordinates pf (latitude r) (longitude r),
           shown_id = report_id r,
           open_in_maps = openInMaps pf r\<rparr> \<and>
   (\<not> isLoading s \<and> error s = [] \<longrightarrow>
      (\<exists>v. Home_render pf (map_click (Some r) s) = MainView v \<and>
         detail_modal v = ReportModal pf (Some r) True))"
  by (simp add: heatmap_onClick_def map_click_def handleReportClick_def ReportModal_def
      Home_render_def)

text \<open>
  An instance: the page after a fetch that returned \<open>report_a\<close>, clicked beside the
  report and on it.
\<close>

theorem map_click_selection_witness:
  "\<forall>pf. \<not> isModalOpen (fetchReports (FetchData (Some [report_a])) initial_home) \<and>
     \<not> isLoading (fetchReports (FetchData (Some [report_a])) initial_home) \<and>
     error (fetchReports (FetchData (Some [report_a])) initial_home) = [] \<and>
     ReportModal pf
       (selectedReport (map_click None (fetchReports (FetchData (Some [report_a])) initial_home)))
       (isModalOpen (map_click None (fetchReports (FetchData (Some [report_a])) initial_home))) =
       None \<and>
     (\<exists>v. Home_render pf
        (map_click (Some report_a) (fetchReports (FetchData (Some [report_a])) initial_home)) =
          MainView v \<and>
        map_option shown_id (detail_modal v) = Some ''a'')"
proof
  fix pf
  let ?s = "fetchReports (FetchData (Some [report_a])) initial_home"
  have s: "\<not> isModalOpen ?s \<and> \<not> isLoading ?s \<and> error ?s = []"
    by (simp add: fetchReports_def fetchReports_start_def fetchReports_done_def
        data_or_empty_def initial_home_def)
  show "\<not> isModalOpen ?s \<and> \<not> isLoading ?s \<and> error ?s = [] \<and>
     ReportModal pf (selectedReport (map_click None ?s)) (isModalOpen (map_click None ?s)) =
       None \<and>
     (\<exists>v. Home_render pf (map_click (Some report_a) ?s) = MainView v \<and>
        map_option shown_id (detail_modal v) = Some ''a'')"
    using map_click_selection [of False ?s pf report_a] s
    by (auto simp: ReportModal_def report_a_def)
qed

section \<open>The detail modal\<close>

text \<open>
  Claim C10. Without a report the modal renders nothing, whatever its \<^verbatim>\<open>isOpen\<close> flag
  says.
\<close>

theorem modal_without_report: "ReportModal pf None isOpen = None"
  by (simp add: ReportModal_def)

declare decimal.simps [simp del]

lemma digit_char_is_digit: "d < 10 \<Longrightarrow> is_digit (digit_char d)"
  unfolding digit_char_def is_digit_def by (rule nth_mem) simp

lemma decimal_digits: "list_all is_digit (decimal n)"
proof (induction n rule: decimal.induct)
  case (1 n)
  show ?case
  proof (cases "n < 10")
    case True
    then show ?thesis by (subst decimal.simps) (simp add: digit_char_is_digit)
  next
    case False
    with 1 show ?thesis by (subst decimal.simps) (simp add: digit_char_is_digit)
  qed
qed

lemma minus_not_digit: "is_digit c \<Longrightarrow> c \<noteq> CHR ''-''"
  by (auto simp: is_digit_def)

lemma fixed_point_intro:
  assumes "w \<noteq> []" "list_all is_digit w" "length fr = f" "list_all is_digit fr"
    and "s = [] \<or> s = ''-''"
  shows "fixed_point f (s @ w @ ''.'' @ fr)"
proof -
  obtain c cs where w: "w = c # cs" using assms(1) by (cases w) auto
  have c: "c \<noteq> CHR ''-''" using assms(2) w by (simp add: minus_not_digit)
  let ?body = "w @ ''.'' @ fr"
  have body:
    "(case s @ ?body of c # cs \<Rightarrow> if c = CHR ''-'' then cs else s @ ?body | [] \<Rightarrow> []) = ?body"
    using assms(5) w c by auto
  have len: "length ?body - (f + 1) = length w" using assms(3) by simp
  show ?thesis
    unfolding fixed_point_def body Let_def len using assms by simp
qed

text \<open>
  \<^verbatim>\<open>toFixed(f)\<close> of a finite number below \<open>10\<^sup>2\<^sup>1\<close> in magnitude is in fixed-point
  notation with \<open>f\<close> decimal places.
\<close>

lemma toFixed_fixed_point:
  assumes "\<bar>q\<bar> < 10 ^ 21" and "f \<noteq> 0"
  shows "fixed_point f (toFixed pf (Finite q) f)"
proof -
  define n where "n = nat \<lfloor>\<bar>q\<bar> * 10 ^ f + 1 / 2\<rfloor>"
  define m where "m = decimal n"
  define m2 where
    "m2 = (if length m \<le> f then replicate (f + 1 - length m) CHR ''0'' @ m else m)"
  define s where "s = (if q < 0 then ''-'' else [])"
  have zero: "is_digit CHR ''0''" by (simp add: is_digit_def)
  have dig: "list_all is_digit m2"
    using decimal_digits [of n] zero by (simp add: m2_def m_def list_all_iff)
  have len: "f < length m2" by (simp add: m2_def)
  have eq: "toFixed pf (Finite q) f =
      s @ take (length m2 - f) m2 @ ''.'' @ drop (length m2 - f) m2"
    using assms by (simp add: toFixed_def Let_def n_def m_def m2_def s_def)
  have "fixed_point f (s @ take (length m2 - f) m2 @ ''.'' @ drop (length m2 - f) m2)"
  proof (rule fixed_point_intro)
    show "take (length m2 - f) m2 \<noteq> []" using len by auto
    show "list_all is_digit (take (length m2 - f) m2)"
      using dig by (auto simp: list_all_iff dest: in_set_takeD)
    show "length (drop (length m2 - f) m2) = f" using len by simp
    show "list_all is_digit (drop (length m2 - f) m2)"
      using dig by (auto simp: list_all_iff dest: in_set_dropD)
    show "s = [] \<or> s = ''-''" by (simp add: s_def)
  qed
  then show ?thesis by (simp only: eq)
qed

text \<open>
  Claim C8. For a report whose latitude and longitude are finite numbers below
  \<open>10\<^sup>2\<^sup>1\<close> in magnitude (every latitude in \<open>[-90, 90]\<close> and longitude in
  \<open>[-180, 180]\<close> is), the open modal shows as location the two coordinates, each in
  fixed-point notation with exactly 6 decimal places, separated by a comma and a space;
  and its "Open in Maps" button opens, in the new browsing context \<^verbatim>\<open>_blank\<close>, the
  URL \<^verbatim>\<open>https://www.google.com/maps?q=<lat>,<lng>\<close> made of the latitude and the
  longitude of the report as the platform prints them.
\<close>

theorem modal_coordinates_and_link:
  assumes "latitude r = Finite la" and "\<bar>la\<bar> < 10 ^ 21"
    and "longitude r = Finite lo" and "\<bar>lo\<bar> < 10 ^ 21"
  shows
    "\<exists>v. ReportModal pf (Some r) True = Some v \<and>
       shown_location v = toFixed pf (latitude r) 6 @ '', '' @ toFixed pf (longitude r) 6 \<and>
       fixed_point 6 (toFixed pf (latitude r) 6) \<and>
       fixed_point 6 (toFixed pf (longitude r) 6) \<and>
       open_in_maps v =
         WindowOpen
           (''https://'' @ ''www.google.com'' @ ''/maps?q='' @
            numberToString pf (latitude r) @ '','' @ numberToString pf (longitude r))
           ''_blank''"
  using assms toFixed_fixed_point [of la 6 pf] toFixed_fixed_point [of lo 6 pf]
  by (simp add: ReportModal_def formatCoordinates_def openInMaps_def)

text \<open>An instance: \<open>report_b\<close>, at latitude \<open>-17.5\<close> and longitude \<open>-149\<close>.\<close>

theorem modal_coordinates_and_link_witness:
  "\<forall>pf. latitude report_b = Finite (- (35 / 2)) \<and> \<bar>- (35 / 2) :: rat\<bar> < 10 ^ 21 \<and>
     longitude report_b = Finite (- 149) \<and> \<bar>- 149 :: rat\<bar> < 10 ^ 21 \<and>
     (\<exists>v. ReportModal pf (Some report_b) True = Some v \<and>
        shown_location v = ''-17.500000, -149.000000'' \<and>
        fixed_point 6 ''-17.500000'' \<and> fixed_point 6 ''-149.000000'' \<and>
        open_in_maps v =
          WindowOpen
            (''https://www.google.com/maps?q='' @ numberToString pf (Finite (- (35 / 2))) @
             '','' @ numberToString pf (Finite (- 149)))
            ''_blank'')"
proof
  fix pf
  have la: "toFixed pf (Finite (- (35 / 2))) 6 = ''-17.500000''" by code_simp
  have lo: "toFixed pf (Finite (- 149)) 6 = ''-149.000000''" by code_simp
  show "latitude report_b = Finite (- (35 / 2)) \<and> \<bar>- (35 / 2) :: rat\<bar> < 10 ^ 21 \<and>
     longitude report_b = Finite (- 149) \<and> \<bar>- 149 :: rat\<bar> < 10 ^ 21 \<and>
     (\<exists>v. ReportModal pf (Some report_b) True = Some v \<and>
        shown_location v = ''-17.500000, -149.000000'' \<and>
        fixed_point 6 ''-17.500000'' \<and> fixed_point 6 ''-149.000000'' \<and>
        open_in_maps v =
          WindowOpen
            (''https://www.google.com/maps?q='' @ numberToString pf (Finite (- (35 / 2))) @
             '','' @ numberToString pf (Finite (- 149)))
            ''_blank'')"
    using modal_coordinates_and_link [of report_b "- (35 / 2)" "- 149" pf]
    by (simp add: report_b_def la lo)
qed

section \<open>The upload flow\<close>

lemma file_select_rejected:
  assumes "\<not> startsWith (file_type f) ''image/'' \<or> 5 * 1024 * 1024 < file_size f"
  shows "handleFileSelect url (Some f) =
           [SetUploadStatus
              (if \<not> startsWith (file_type f) ''image/'' then ''Please select an image file''
               else ''File size must be less than 5MB'')]"
  using assms by (auto simp: handleFileSelect_def)

lemma image_selected_eq:
  "image_selected =
     \<lparr>isUploading = False, uploadStatus = [], selectedFile = Some small_image,
      previewUrl = ''blob:1''\<rparr>"
  by (simp add: image_selected_def upload_run_def handleFileSelect_def initial_upload_def
      small_image_def startsWith_def)

text \<open>The name under which \<open>small_image\<close> is stored in the environment \<open>env_ok\<close>.\<close>

lemma upload_path_example:
  "upload_path env_ok small_image = ''photos/1714644000000-k3x9q.jpg''"
  by code_simp

text \<open>
  Claim C2. Selecting a file whose MIME type does not start with \<^verbatim>\<open>image/\<close>, or whose
  size is above \<open>5 \<times> 1024 \<times> 1024\<close> bytes, does one thing only: it sets the status to
  the message of the violation, "Please select an image file" for the type and "File
  size must be less than 5MB" for the size (the type is checked first). The handler
  makes no location or network call, the file does not become the selection, and with
  nothing selected before, an upload started afterwards makes no such call either.
\<close>

theorem invalid_file_rejected:
  assumes "\<not> startsWith (file_type f) ''image/'' \<or> 5 * 1024 * 1024 < file_size f"
  shows
    "statuses (handleFileSelect url (Some f)) =
       [if \<not> startsWith (file_type f) ''image/'' then ''Please select an image file''
        else ''File size must be less than 5MB''] \<and>
     ''Please select an image file'' \<noteq> ''File size must be less than 5MB'' \<and>
     filter location_or_network (handleFileSelect url (Some f)) = [] \<and>
     selectedFile (upload_run s (handleFileSelect url (Some f))) = selectedFile s \<and>
     uploadStatus (upload_run s (handleFileSelect url (Some f))) =
       (if \<not> startsWith (file_type f) ''image/'' then ''Please select an image file''
        else ''File size must be less than 5MB'') \<and>
     (selectedFile s = None \<longrightarrow>
        filter location_or_network
          (handleUpload env (upload_run s (handleFileSelect url (Some f)))) = [])"
  unfolding file_select_rejected [OF assms]
  by (simp add: statuses_def upload_run_def handleUpload_def)

text \<open>
  Two instances: a file of type \<^verbatim>\<open>text/plain\<close>, and an image of 6 MiB.
\<close>

theorem invalid_file_rejected_witness:
  "\<not> startsWith (file_type text_file) ''image/'' \<and>
   statuses (handleFileSelect ''blob:2'' (Some text_file)) = [''Please select an image file''] \<and>
   filter location_or_network (handleFileSelect ''blob:2'' (Some text_file)) = [] \<and>
   selectedFile (upload_run initial_upload (handleFileSelect ''blob:2'' (Some text_file))) =
     None \<and>
   filter location_or_network
     (handleUpload env_ok
        (upload_run initial_upload (handleFileSelect ''blob:2'' (Some text_file)))) = [] \<and>
   startsWith (file_type big_image) ''image/'' \<and>
   5 * 1024 * 1024 < file_size big_image \<and>
   statuses (handleFileSelect ''blob:3'' (Some big_image)) =
     [''File size must be less than 5MB''] \<and>
   filter location_or_network (handleFileSelect ''blob:3'' (Some big_image)) = []"
  using invalid_file_rejected [of text_file "''blob:2''" initial_upload env_ok]
    invalid_file_rejected [of big_image "''blob:3''" initial_upload env_ok]
  by (simp add: text_file_def big_image_def startsWith_def initial_upload_def)

text \<open>
  Claim C9. A selection that fails validation changes the status message and nothing
  else: the selected file and the preview URL stay as they were. So a valid file \<open>g\<close>
  selected earlier, and its preview, survive the later selection of an invalid file.
\<close>

theorem invalid_file_keeps_selection:
  assumes "\<not> startsWith (file_type f) ''image/'' \<or> 5 * 1024 * 1024 < file_size f"
  shows
    "upload_run s (handleFileSelect url (Some f)) =
       s\<lparr>uploadStatus :=
           if \<not> startsWith (file_type f) ''image/'' then ''Please select an image file''
           else ''File size must be less than 5MB''\<rparr> \<and>
     selectedFile (upload_run s (handleFileSelect url (Some f))) = selectedFile s \<and>
     previewUrl (upload_run s (handleFileSelect url (Some f))) = previewUrl s \<and>
     (startsWith (file_type g) ''image/'' \<and> file_size g \<le> 5 * 1024 * 1024 \<longrightarrow>
        selectedFile
          (upload_run s (handleFileSelect url0 (Some g) @ handleFileSelect url (Some f))) =
          Some g \<and>
        previewUrl
          (upload_run s (handleFileSelect url0 (Some g) @ handleFileSelect url (Some f))) =
          url0)"
  unfolding file_select_rejected [OF assms]
  by (simp add: upload_run_def handleFileSelect_def)

text \<open>
  An instance: \<open>small_image\<close> is selected, then the text file; the image and its preview
  are still selected.
\<close>

theorem invalid_file_keeps_selection_witness:
  "\<not> startsWith (file_type text_file) ''image/'' \<and>
   startsWith (file_type small_image) ''image/'' \<and>
   file_size small_image \<le> 5 * 1024 * 1024 \<and>
   upload_run image_selected (handleFileSelect ''blob:2'' (Some text_file)) =
     \<lparr>isUploading = False, uploadStatus = ''Please select an image file'',
      selectedFile = Some small_image, previewUrl = ''blob:1''\<rparr> \<and>
   selectedFile
     (upload_run initial_upload
        (handleFileSelect ''blob:1'' (Some small_image) @
         handleFileSelect ''blob:2'' (Some text_file))) = Some small_image \<and>
   previewUrl
     (upload_run initial_upload
        (handleFileSelect ''blob:1'' (Some small_image) @
         handleFileSelect ''blob:2'' (Some text_file))) = ''blob:1''"
  using invalid_file_keeps_selection
    [of text_file image_selected "''blob:2''" small_image "''blob:1''"]
    invalid_file_keeps_selection
    [of text_file initial_upload "''blob:2''" small_image "''blob:1''"]
  by (simp add: image_selected_eq text_file_def small_image_def startsWith_def)

text \<open>
  Claim C3. With a file selected, the location acquired and the storage upload
  answered by an error with message \<open>m\<close>, the status goes through "Getting your
  location...", "Uploading photo..." and ends as "Upload failed: " followed by \<open>m\<close>;
  the uploading flag is cleared; and the attempt makes no database insert call.
\<close>

theorem upload_error_no_insert:
  assumes "selectedFile s = Some f" and "env_location env = Inr loc"
    and "env_upload_error env = Some m"
  shows
    "statuses (handleUpload env s) =
       [''Getting your location...'', ''Uploading photo...'', ''Upload failed: '' @ m] \<and>
     uploadStatus (upload_run s (handleUpload env s)) = ''Upload failed: '' @ m \<and>
     \<not> isUploading (upload_run s (handleUpload env s)) \<and>
     filter is_insert (handleUpload env s) = []"
  using assms
  by (simp add: handleUpload_def try_block_def catch_block_def statuses_def upload_run_def)

theorem upload_error_no_insert_witness:
  "selectedFile image_selected = Some small_image \<and>
   env_location env_upload_fails = Inr here \<and>
   env_upload_error env_upload_fails = Some ''Bucket not found'' \<and>
   statuses (handleUpload env_upload_fails image_selected) =
     [''Getting your location...'', ''Uploading photo...'',
      ''Upload failed: Bucket not found''] \<and>
   uploadStatus (upload_run image_selected (handleUpload env_upload_fails image_selected)) =
     ''Upload failed: Bucket not found'' \<and>
   filter is_insert (handleUpload env_upload_fails image_selected) = []"
  using upload_error_no_insert
    [of image_selected small_image env_upload_fails here "''Bucket not found''"]
  by (simp add: image_selected_eq env_upload_fails_def env_ok_def)

text \<open>
  Claim C4. With a file selected and the location, the storage upload and the database
  insert all succeeding, the status takes exactly the values "Getting your
  location...", "Uploading photo...", "Saving report..." and "Report submitted
  successfully!", in this order. The attempt starts one timer, of 3000 milliseconds,
  whose callback empties the status: with no other event, the status is the success
  message until 3000 milliseconds have passed, and empty from then on.
\<close>

theorem upload_success_status_sequence:
  assumes "selectedFile s = Some f" and "env_location env = Inr loc"
    and "env_upload_error env = None" and "env_db_error env = None"
  shows
    "statuses (handleUpload env s) =
       [''Getting your location...'', ''Uploading photo...'', ''Saving report...'',
        ''Report submitted successfully!''] \<and>
     timers (handleUpload env s) = [(SetUploadStatus [], 3000)] \<and>
     uploadStatus (after_delay ms s (handleUpload env s)) =
       (if ms < 3000 then ''Report submitted successfully!'' else [])"
  using assms
  by (simp add: handleUpload_def try_block_def statuses_def timers_def after_delay_def
      upload_run_def)

theorem upload_success_status_sequence_witness:
  "selectedFile image_selected = Some small_image \<and>
   env_location env_ok = Inr here \<and>
   env_upload_error env_ok = None \<and> env_db_error env_ok = None \<and>
   statuses (handleUpload env_ok image_selected) =
     [''Getting your location...'', ''Uploading photo...'', ''Saving report...'',
      ''Report submitted successfully!''] \<and>
   uploadStatus (after_delay 2999 image_selected (handleUpload env_ok image_selected)) =
     ''Report submitted successfully!'' \<and>
   uploadStatus (after_delay 3000 image_selected (handleUpload env_ok image_selected)) = []"
  using upload_success_status_sequence [of image_selected small_image env_ok here 2999]
    upload_success_status_sequence [of image_selected small_image env_ok here 3000]
  by (simp add: image_selected_eq env_ok_def)

end
